theory Spec2Isabelle
  imports Complex_Main
begin

section \<open>Tokens (token.go)\<close>

datatype TokenType =
    TokenLeftParen | TokenRightParen | TokenLeftBrace | TokenRightBrace
  | TokenLeftBracket | TokenRightBracket | TokenComma | TokenDot | TokenMinus
  | TokenPlus | TokenSemicolon | TokenSlash | TokenStar | TokenColon
  | TokenQuestionMark | TokenPipe
  | TokenBang | TokenBangEqual | TokenEqual | TokenEqualEqual
  | TokenGreater | TokenGreaterEqual | TokenLess | TokenLessEqual
  | TokenIdentifier | TokenString | TokenNumber
  | TokenAnd | TokenClass | TokenElse | TokenFalse | TokenFun | TokenFor | TokenIf
  | TokenNil | TokenOr | TokenPrint | TokenReturn | TokenSuper | TokenThis
  | TokenTrue | TokenVar | TokenWhile | TokenBreak | TokenContinue
  | TokenTypeType | TokenEof

text \<open>
  Runtime values are Go \<open>interface{}\<close> values. \<open>float64\<close> is abstracted by the reals
  (rounding, infinities and NaN are not modelled). Functions, classes and instances are
  pointers; they are addresses into the heaps of the interpreter state below, so that
  \<open>==\<close> on them is identity, as in Go.
\<close>

datatype val =
    VNil | VBool bool | VNum real | VStr string
  | VFun nat | VClass nat | VInst nat

record Token =
  tokenType :: TokenType
  lexeme :: string
  literal :: val
  line :: int
  start :: int

section \<open>Syntax trees (expr.go, stmt.go)\<close>

text \<open>
  The interpreter's side table \<open>locals\<close> is a Go map keyed by the pointer of an expression
  node. The four node kinds that are used as keys carry their address as first argument.
\<close>

datatype Expr =
    Binary Expr Token Expr
  | Grouping Expr
  | Literal val
  | Unary Token Expr
  | Variable nat Token
  | Assign nat Token Expr
  | Call Expr Token "Expr list"
  | GetExpr Expr Token
  | SetExpr Expr Token Expr
  | ThisExpr nat Token
  | SuperExpr nat Token Token

text \<open>
  \<open>FunStmt name params body\<close>; \<open>ClassStmt name superclass methods\<close>, the superclass being
  a \<open>*Variable\<close> (address and name) and every method a \<open>*FunStmt\<close>
  (name, parameters, body).
\<close>

datatype Stmt =
    ExpressionStmt Expr
  | PrintStmt Expr
  | VarStmt Token "Expr option"
  | BlockStmt "Stmt list"
  | IfStmt Expr Stmt "Stmt option"
  | WhileStmt Expr Stmt
  | BreakStmt
  | FunStmt Token "Token list" "Stmt list"
  | ReturnStmt Token "Expr option"
  | ClassStmt Token "(nat \<times> Token) option" "(Token \<times> Token list \<times> Stmt list) list"

section \<open>Panics\<close>

text \<open>
  Every Go \<open>panic\<close> of the interpreter is a value: the two control signals, the
  \<open>RuntimeError\<close> struct, a panic with a plain string, the two formatted string panics of
  \<open>VisitCallExpr\<close> (kept with their arguments instead of the formatted text), and a panic
  of the Go runtime itself (nil dereference, failed type assertion, index out of range).
\<close>

datatype Panic =
    ReturnValue val
  | BreakException
  | RuntimeError Token string
  | PanicString string
  | PanicNotCallable val
  | PanicArity nat nat
  | GoRuntimePanic

section \<open>Operators of VisitUnaryExpr and VisitBinaryExpr (interpreter.go)\<close>

fun isTruthy :: "val \<Rightarrow> bool" where
  "isTruthy VNil = False"
| "isTruthy (VBool b) = b"
| "isTruthy _ = True"

definition isEqual :: "val \<Rightarrow> val \<Rightarrow> bool" where
  "isEqual a b = (a = b)"

fun isNumber :: "val \<Rightarrow> bool" where
  "isNumber (VNum x) = True"
| "isNumber _ = False"

fun isString :: "val \<Rightarrow> bool" where
  "isString (VStr x) = True"
| "isString _ = False"

fun toFloat64 :: "val \<Rightarrow> Panic + real" where
  "toFloat64 (VNum x) = Inr x"
| "toFloat64 _ = Inl (PanicString ''Operand must be a number.'')"

definition checkNumberOperands :: "Token \<Rightarrow> val \<Rightarrow> val \<Rightarrow> Panic option" where
  "checkNumberOperands operator left right =
     (if isNumber left \<and> isNumber right then None
      else Some (PanicString (''Operands for '' @ lexeme operator @ '' must be numbers.'')))"

text \<open>
  \<open>numeric operator left right k\<close>: \<open>checkNumberOperands\<close>, then \<open>k\<close> on the two floats.
\<close>

definition numeric :: "Token \<Rightarrow> val \<Rightarrow> val \<Rightarrow> (real \<Rightarrow> real \<Rightarrow> Panic + val) \<Rightarrow> Panic + val" where
  "numeric operator left right k =
     (case checkNumberOperands operator left right of
        Some p \<Rightarrow> Inl p
      | None \<Rightarrow>
          (case toFloat64 left of
             Inl p \<Rightarrow> Inl p
           | Inr l \<Rightarrow> (case toFloat64 right of Inl p \<Rightarrow> Inl p | Inr r \<Rightarrow> k l r)))"

text \<open>The \<open>switch\<close> of \<open>VisitBinaryExpr\<close>, after both operands have been evaluated.\<close>

definition binaryOp :: "Token \<Rightarrow> val \<Rightarrow> val \<Rightarrow> Panic + val" where
  "binaryOp operator left right =
     (case tokenType operator of
        TokenPlus \<Rightarrow>
          (case (left, right) of
             (VStr a, VStr b) \<Rightarrow> Inr (VStr (a @ b))
           | (VNum a, VNum b) \<Rightarrow> Inr (VNum (a + b))
           | _ \<Rightarrow> Inl (PanicString ''Operands must be two numbers or two strings.''))
      | TokenMinus \<Rightarrow> numeric operator left right (\<lambda>l r. Inr (VNum (l - r)))
      | TokenStar \<Rightarrow> numeric operator left right (\<lambda>l r. Inr (VNum (l * r)))
      | TokenSlash \<Rightarrow>
          numeric operator left right
            (\<lambda>l r. if r = 0 then Inl (PanicString ''Division by zero.'') else Inr (VNum (l / r)))
      | TokenGreater \<Rightarrow> numeric operator left right (\<lambda>l r. Inr (VBool (l > r)))
      | TokenGreaterEqual \<Rightarrow> numeric operator left right (\<lambda>l r. Inr (VBool (l \<ge> r)))
      | TokenLess \<Rightarrow> numeric operator left right (\<lambda>l r. Inr (VBool (l < r)))
      | TokenLessEqual \<Rightarrow> numeric operator left right (\<lambda>l r. Inr (VBool (l \<le> r)))
      | TokenEqualEqual \<Rightarrow> Inr (VBool (isEqual left right))
      | TokenBangEqual \<Rightarrow> Inr (VBool (\<not> isEqual left right))
      | _ \<Rightarrow> Inr VNil)"

definition unaryOp :: "Token \<Rightarrow> val \<Rightarrow> Panic + val" where
  "unaryOp operator right =
     (case tokenType operator of
        TokenMinus \<Rightarrow> (case toFloat64 right of Inl p \<Rightarrow> Inl p | Inr x \<Rightarrow> Inr (VNum (- x)))
      | TokenBang \<Rightarrow> Inr (VBool (\<not> isTruthy right))
      | _ \<Rightarrow> Inr VNil)"

section \<open>Heap objects and interpreter state (environment.go, interpreter.go)\<close>

record Environment =
  values_map :: "string \<rightharpoonup> val"
  parent :: "nat option"

text \<open>\<open>declaration_of\<close> is the field \<open>declaration\<close>, the \<open>*FunStmt\<close>: name, parameters and body.\<close>

record LoxFunction =
  declaration_of :: "Token \<times> Token list \<times> Stmt list"
  closure :: nat
  isInitializer :: bool

record LoxClass =
  name :: string
  superclass :: "nat option"
  methods :: "string \<rightharpoonup> nat"

record LoxInstance =
  klass :: nat
  fields_map :: "string \<rightharpoonup> val"

text \<open>
  The interpreter with the Go heap it works on. Each heap is a total function from
  addresses to objects with an allocation counter; a fresh object takes the address of the
  counter. \<open>locals\<close> maps the address of an expression node to its distance. \<open>stdout\<close>
  is the sequence of values_map handed to \<open>fmt.Println(stringify(value))\<close>.
\<close>

record Interp =
  environment :: nat
  globals :: nat
  locals :: "nat \<rightharpoonup> int"
  envs :: "nat \<Rightarrow> Environment"
  envCount :: nat
  funs :: "nat \<Rightarrow> LoxFunction"
  funCount :: nat
  classes :: "nat \<Rightarrow> LoxClass"
  classCount :: nat
  instances :: "nat \<Rightarrow> LoxInstance"
  instCount :: nat
  stdout :: "val list"

definition NewInterpreter :: Interp where
  "NewInterpreter =
     \<lparr>environment = 0, globals = 0, locals = Map.empty,
      envs = (\<lambda>a. \<lparr>values_map = Map.empty, parent = None\<rparr>), envCount = 1,
      funs = (\<lambda>a. \<lparr>declaration_of = (\<lparr>tokenType = TokenEof, lexeme = [], literal = VNil,
                                      line = 0, start = 0\<rparr>, [], []),
                    closure = 0, isInitializer = False\<rparr>), funCount = 0,
      classes = (\<lambda>a. \<lparr>name = [], superclass = None, methods = Map.empty\<rparr>), classCount = 0,
      instances = (\<lambda>a. \<lparr>klass = 0, fields_map = Map.empty\<rparr>), instCount = 0,
      stdout = []\<rparr>"

definition resolve :: "nat \<Rightarrow> int \<Rightarrow> Interp \<Rightarrow> Interp" where
  "resolve expr depth s = s\<lparr>locals := (locals s)(expr \<mapsto> depth)\<rparr>"

definition NewEnclosedEnvironment :: "nat \<Rightarrow> Interp \<Rightarrow> nat \<times> Interp" where
  "NewEnclosedEnvironment p s =
     (envCount s,
      s\<lparr>envs := (envs s)(envCount s := \<lparr>values_map = Map.empty, parent = Some p\<rparr>),
        envCount := Suc (envCount s)\<rparr>)"

definition Define :: "nat \<Rightarrow> string \<Rightarrow> val \<Rightarrow> Interp \<Rightarrow> Interp" where
  "Define env nm v s =
     s\<lparr>envs := (envs s)(env := (envs s env)\<lparr>values_map := (values_map (envs s env))(nm \<mapsto> v)\<rparr>)\<rparr>"

definition undefinedVariable :: "Token \<Rightarrow> Panic" where
  "undefinedVariable nm = PanicString (''Undefined variable '' @ [CHR 0x27] @ lexeme nm @ [CHR 0x27] @ ''.'')"

text \<open>
  \<open>Environment.Get\<close> and \<open>Environment.Assign\<close> recurse along the parent links of the
  heap. The first argument is fuel: \<open>None\<close> is a walk that has not ended within it.
\<close>

fun Get :: "nat \<Rightarrow> (nat \<Rightarrow> Environment) \<Rightarrow> nat \<Rightarrow> Token \<Rightarrow> (Panic + val) option" where
  "Get 0 h env nm = None"
| "Get (Suc n) h env nm =
     (case values_map (h env) (lexeme nm) of
        Some v \<Rightarrow> Some (Inr v)
      | None \<Rightarrow>
          (case parent (h env) of
             Some p \<Rightarrow> Get n h p nm
           | None \<Rightarrow> Some (Inl (undefinedVariable nm))))"

fun Assign_env :: "nat \<Rightarrow> (nat \<Rightarrow> Environment) \<Rightarrow> nat \<Rightarrow> Token \<Rightarrow> val
    \<Rightarrow> (Panic + (nat \<Rightarrow> Environment)) option" where
  "Assign_env 0 h env nm v = None"
| "Assign_env (Suc n) h env nm v =
     (case values_map (h env) (lexeme nm) of
        Some old \<Rightarrow> Some (Inr (h(env := (h env)\<lparr>values_map := (values_map (h env))(lexeme nm \<mapsto> v)\<rparr>)))
      | None \<Rightarrow>
          (case parent (h env) of
             Some p \<Rightarrow> Assign_env n h p nm v
           | None \<Rightarrow> Some (Inl (undefinedVariable nm))))"

text \<open>
  The loop \<open>for i := 0; i < distance; i++ { current = current.parent }\<close> of \<open>getAt\<close> and
  \<open>assignAt\<close>. \<open>current\<close> may become nil; dereferencing it then is a panic of the Go
  runtime, here the result \<open>None\<close>.
\<close>

fun ancestor :: "(nat \<Rightarrow> Environment) \<Rightarrow> nat \<Rightarrow> nat option \<Rightarrow> nat option" where
  "ancestor h 0 current = current"
| "ancestor h (Suc d) current =
     (case current of None \<Rightarrow> None | Some a \<Rightarrow> ancestor h d (parent (h a)))"

definition getAt :: "nat \<Rightarrow> int \<Rightarrow> string \<Rightarrow> Interp \<Rightarrow> Panic + val" where
  "getAt env distance nm s =
     (case ancestor (envs s) (nat distance) (Some env) of
        None \<Rightarrow> Inl GoRuntimePanic
      | Some a \<Rightarrow> Inr (case values_map (envs s a) nm of None \<Rightarrow> VNil | Some v \<Rightarrow> v))"

definition assignAt :: "nat \<Rightarrow> int \<Rightarrow> Token \<Rightarrow> val \<Rightarrow> Interp \<Rightarrow> Panic + Interp" where
  "assignAt env distance nm v s =
     (case ancestor (envs s) (nat distance) (Some env) of
        None \<Rightarrow> Inl GoRuntimePanic
      | Some a \<Rightarrow> Inr (Define a (lexeme nm) v s))"

text \<open>
  A computation of the interpreter: \<open>None\<close> when the fuel runs out, otherwise a panic or a
  value, with the state reached.
\<close>

type_synonym 'a result = "((Panic + 'a) \<times> Interp) option"

definition andThen :: "'a result \<Rightarrow> ('a \<Rightarrow> Interp \<Rightarrow> 'b result) \<Rightarrow> 'b result" where
  "andThen r f =
     (case r of
        None \<Rightarrow> None
      | Some (Inl p, s) \<Rightarrow> Some (Inl p, s)
      | Some (Inr a, s) \<Rightarrow> f a s)"

definition lookupVariable :: "nat \<Rightarrow> Token \<Rightarrow> nat \<Rightarrow> Interp \<Rightarrow> val result" where
  "lookupVariable n nm expr s =
     (case locals s expr of
        Some distance \<Rightarrow> Some (getAt (environment s) distance (lexeme nm) s, s)
      | None \<Rightarrow>
          (case Get n (envs s) (environment s) nm of
             None \<Rightarrow> None
           | Some r \<Rightarrow> Some (r, s)))"

text \<open>\<open>LoxClass.findMethod\<close> and the identical \<open>LoxClass.FindMethod\<close>, with fuel.\<close>

fun findMethod :: "nat \<Rightarrow> (nat \<Rightarrow> LoxClass) \<Rightarrow> nat \<Rightarrow> string \<Rightarrow> nat option option" where
  "findMethod 0 h c nm = None"
| "findMethod (Suc n) h c nm =
     (case methods (h c) nm of
        Some m \<Rightarrow> Some (Some m)
      | None \<Rightarrow>
          (case superclass (h c) of
             Some sc \<Rightarrow> findMethod n h sc nm
           | None \<Rightarrow> Some None))"

definition FindMethod :: "nat \<Rightarrow> (nat \<Rightarrow> LoxClass) \<Rightarrow> nat \<Rightarrow> string \<Rightarrow> nat option option" where
  "FindMethod = findMethod"

definition LoxFunction_Arity :: "LoxFunction \<Rightarrow> nat" where
  "LoxFunction_Arity f = length (fst (snd (declaration_of f)))"

definition LoxClass_Arity :: "nat \<Rightarrow> nat \<Rightarrow> Interp \<Rightarrow> nat option" where
  "LoxClass_Arity n c s =
     (case findMethod n (classes s) c ''init'' of
        None \<Rightarrow> None
      | Some None \<Rightarrow> Some 0
      | Some (Some initializer) \<Rightarrow> Some (LoxFunction_Arity (funs s initializer)))"

text \<open>\<open>LoxFunction.Bind\<close>: a new environment defining \<open>this\<close>, and a new function object.\<close>

definition Bind :: "nat \<Rightarrow> nat \<Rightarrow> Interp \<Rightarrow> nat \<times> Interp" where
  "Bind f inst s =
     (let (env, s1) = NewEnclosedEnvironment (closure (funs s f)) s;
          s2 = Define env ''this'' (VInst inst) s1
      in (funCount s2,
          s2\<lparr>funs := (funs s2)(funCount s2 :=
                 \<lparr>declaration_of = declaration_of (funs s f), closure = env,
                  isInitializer = isInitializer (funs s f)\<rparr>),
             funCount := Suc (funCount s2)\<rparr>))"

definition undefinedProperty :: "Token \<Rightarrow> Panic" where
  "undefinedProperty nm =
     RuntimeError nm (''Undefined property '' @ [CHR 0x27] @ lexeme nm @ [CHR 0x27] @ ''.'')"

definition LoxInstance_Get :: "nat \<Rightarrow> nat \<Rightarrow> Token \<Rightarrow> Interp \<Rightarrow> val result" where
  "LoxInstance_Get n inst nm s =
     (case fields_map (instances s inst) (lexeme nm) of
        Some v \<Rightarrow> Some (Inr v, s)
      | None \<Rightarrow>
          (case FindMethod n (classes s) (klass (instances s inst)) (lexeme nm) of
             None \<Rightarrow> None
           | Some (Some m) \<Rightarrow> (let (b, s1) = Bind m inst s in Some (Inr (VFun b), s1))
           | Some None \<Rightarrow> Some (Inl (undefinedProperty nm), s)))"

definition LoxInstance_Set :: "nat \<Rightarrow> Token \<Rightarrow> val \<Rightarrow> Interp \<Rightarrow> Interp" where
  "LoxInstance_Set inst nm v s =
     s\<lparr>instances := (instances s)(inst :=
          (instances s inst)\<lparr>fields_map := (fields_map (instances s inst))(lexeme nm \<mapsto> v)\<rparr>)\<rparr>"

definition newFunction :: "Token \<times> Token list \<times> Stmt list \<Rightarrow> nat \<Rightarrow> bool \<Rightarrow> Interp \<Rightarrow> nat \<times> Interp" where
  "newFunction decl env isInit s =
     (funCount s,
      s\<lparr>funs := (funs s)(funCount s :=
             \<lparr>declaration_of = decl, closure = env, isInitializer = isInit\<rparr>),
        funCount := Suc (funCount s)\<rparr>)"

text \<open>The loop of \<open>VisitClassStmt\<close> that builds the method table.\<close>

fun makeMethods :: "(Token \<times> Token list \<times> Stmt list) list \<Rightarrow> (string \<rightharpoonup> nat) \<Rightarrow> Interp
    \<Rightarrow> (string \<rightharpoonup> nat) \<times> Interp" where
  "makeMethods [] ms s = (ms, s)"
| "makeMethods (method # rest) ms s =
     (let (f, s1) = newFunction method (environment s) (lexeme (fst method) = ''init'') s
      in makeMethods rest (ms(lexeme (fst method) \<mapsto> f)) s1)"

definition newClass :: "LoxClass \<Rightarrow> Interp \<Rightarrow> nat \<times> Interp" where
  "newClass c s =
     (classCount s, s\<lparr>classes := (classes s)(classCount s := c), classCount := Suc (classCount s)\<rparr>)"

text \<open>
  \<open>VisitClassStmt\<close>. The superclass expression is a \<open>*Variable\<close>, whose evaluation is
  \<open>lookupVariable\<close>.
\<close>

definition VisitClassStmt :: "nat \<Rightarrow> Token \<Rightarrow> (nat \<times> Token) option
    \<Rightarrow> (Token \<times> Token list \<times> Stmt list) list \<Rightarrow> Interp \<Rightarrow> unit result" where
  "VisitClassStmt n nm superclassExpr methodDecls s =
     andThen
       (case superclassExpr of
          None \<Rightarrow> Some (Inr None, s)
        | Some (a, tok) \<Rightarrow>
            andThen (lookupVariable n tok a s)
              (\<lambda>superValue s1.
                 case superValue of
                   VClass c \<Rightarrow> Some (Inr (Some c), s1)
                 | _ \<Rightarrow> Some (Inl (PanicString ''Superclass must be a class.''), s1)))
       (\<lambda>superclassPtr s1.
          let s2 = Define (environment s1) (lexeme nm) VNil s1;
              s3 = (case superclassPtr of
                      None \<Rightarrow> s2
                    | Some c \<Rightarrow>
                        (let (env, t) = NewEnclosedEnvironment (environment s2) s2
                         in Define env ''super'' (VClass c) (t\<lparr>environment := env\<rparr>)));
              (ms, s4) = makeMethods methodDecls Map.empty s3;
              (cls, s5) = newClass \<lparr>name = lexeme nm, superclass = superclassPtr, methods = ms\<rparr> s4
          in case (case superclassPtr of
                     None \<Rightarrow> Some (environment s5)
                   | Some c \<Rightarrow> parent (envs s5 (environment s5))) of
               None \<Rightarrow> Some (Inl GoRuntimePanic, s5)
             | Some env \<Rightarrow>
                 (case Assign_env n (envs s5) env nm (VClass cls) of
                    None \<Rightarrow> None
                  | Some (Inl p) \<Rightarrow> Some (Inl p, s5\<lparr>environment := env\<rparr>)
                  | Some (Inr h) \<Rightarrow> Some (Inr (), s5\<lparr>environment := env, envs := h\<rparr>)))"

text \<open>
  \<open>VisitSuperExpr\<close>: a missing side-table entry reads as distance 0; the two type
  assertions panic in the Go runtime when they fail.
\<close>

definition VisitSuperExpr :: "nat \<Rightarrow> nat \<Rightarrow> Token \<Rightarrow> Token \<Rightarrow> Interp \<Rightarrow> val result" where
  "VisitSuperExpr n expr keyword method s =
     (let distance = (case locals s expr of Some d \<Rightarrow> d | None \<Rightarrow> 0)
      in case getAt (environment s) distance ''super'' s of
           Inr (VClass sc) \<Rightarrow>
             (case getAt (environment s) (distance - 1) ''this'' s of
                Inr (VInst object) \<Rightarrow>
                  (case FindMethod n (classes s) sc (lexeme method) of
                     None \<Rightarrow> None
                   | Some None \<Rightarrow> Some (Inl (undefinedProperty method), s)
                   | Some (Some m) \<Rightarrow> (let (b, s1) = Bind m object s in Some (Inr (VFun b), s1)))
              | _ \<Rightarrow> Some (Inl GoRuntimePanic, s))
         | _ \<Rightarrow> Some (Inl GoRuntimePanic, s))"

text \<open>
  \<open>VisitAssignExpr\<close> after the value has been evaluated: the write, then \<open>return value\<close>.
\<close>

definition assignVariable :: "nat \<Rightarrow> nat \<Rightarrow> Token \<Rightarrow> val \<Rightarrow> Interp \<Rightarrow> val result" where
  "assignVariable n expr nm v s =
     (case locals s expr of
        Some distance \<Rightarrow>
          (case assignAt (environment s) distance nm v s of
             Inl p \<Rightarrow> Some (Inl p, s)
           | Inr s1 \<Rightarrow> Some (Inr v, s1))
      | None \<Rightarrow>
          (case Assign_env n (envs s) (environment s) nm v of
             None \<Rightarrow> None
           | Some (Inl p) \<Rightarrow> Some (Inl p, s)
           | Some (Inr h) \<Rightarrow> Some (Inr v, s\<lparr>envs := h\<rparr>)))"

text \<open>
  The deferred functions that \<open>VisitWhileStmt\<close> registers, one per iteration begun, run
  when the method is left, last registered first: each recovers the panic in flight, swallows
  a \<open>BreakException\<close> and panics again with anything else.
\<close>

fun runDefers :: "nat \<Rightarrow> Panic + unit \<Rightarrow> Panic + unit" where
  "runDefers 0 r = r"
| "runDefers (Suc k) r = runDefers k (case r of Inl BreakException \<Rightarrow> Inr () | _ \<Rightarrow> r)"

text \<open>The deferred function around \<open>function.Call\<close> in \<open>VisitCallExpr\<close>.\<close>

definition recoverReturn :: "val result \<Rightarrow> val result" where
  "recoverReturn r = (case r of Some (Inl (ReturnValue v), s) \<Rightarrow> Some (Inr v, s) | _ \<Rightarrow> r)"

text \<open>
  \<open>for i, param := range f.declaration.Params { environment.Define(param.Lexeme, arguments[i]) }\<close>
\<close>

fun defineParams :: "nat \<Rightarrow> Token list \<Rightarrow> val list \<Rightarrow> Interp \<Rightarrow> (Panic + unit) \<times> Interp" where
  "defineParams env [] arguments s = (Inr (), s)"
| "defineParams env (param # ps) [] s = (Inl GoRuntimePanic, s)"
| "defineParams env (param # ps) (a # as) s = defineParams env ps as (Define env (lexeme param) a s)"

definition newInstance :: "nat \<Rightarrow> Interp \<Rightarrow> nat \<times> Interp" where
  "newInstance c s =
     (instCount s,
      s\<lparr>instances := (instances s)(instCount s := \<lparr>klass = c, fields_map = Map.empty\<rparr>),
        instCount := Suc (instCount s)\<rparr>)"

section \<open>The interpreter (interpreter.go)\<close>

text \<open>
  \<open>evaluate\<close> and \<open>execute\<close> dispatch on the node as \<open>Accept\<close> does, one equation per
  \<open>Visit\<close> method. The first argument is fuel: a call into a strictly smaller piece of syntax
  keeps it, every other call (a loop iteration, a function body, a block) uses one unit.
  \<open>whileLoop n defers\<close> is the \<open>for\<close> loop of \<open>VisitWhileStmt\<close> with \<open>defers\<close> deferred
  functions registered so far.
\<close>

function (sequential) evaluate :: "nat \<Rightarrow> Expr \<Rightarrow> Interp \<Rightarrow> val result"
  and evaluateArgs :: "nat \<Rightarrow> Expr list \<Rightarrow> Interp \<Rightarrow> (val list) result"
  and LoxFunction_Call :: "nat \<Rightarrow> nat \<Rightarrow> val list \<Rightarrow> Interp \<Rightarrow> val result"
  and LoxClass_Call :: "nat \<Rightarrow> nat \<Rightarrow> val list \<Rightarrow> Interp \<Rightarrow> val result"
  and execute :: "nat \<Rightarrow> Stmt \<Rightarrow> Interp \<Rightarrow> unit result"
  and executeStmts :: "nat \<Rightarrow> Stmt list \<Rightarrow> Interp \<Rightarrow> unit result"
  and executeBlock :: "nat \<Rightarrow> Stmt list \<Rightarrow> nat \<Rightarrow> Interp \<Rightarrow> unit result"
  and whileLoop :: "nat \<Rightarrow> nat \<Rightarrow> Expr \<Rightarrow> Stmt \<Rightarrow> Interp \<Rightarrow> unit result"
where
  "evaluate 0 e s = None"
| "evaluate (Suc n) (Literal v) s = Some (Inr v, s)"
| "evaluate (Suc n) (Grouping e) s = evaluate (Suc n) e s"
| "evaluate (Suc n) (Unary operator right) s =
     andThen (evaluate (Suc n) right s) (\<lambda>r s1. Some (unaryOp operator r, s1))"
| "evaluate (Suc n) (Binary left operator right) s =
     andThen (evaluate (Suc n) left s) (\<lambda>l s1.
     andThen (evaluate (Suc n) right s1) (\<lambda>r s2.
       Some (binaryOp operator l r, s2)))"
| "evaluate (Suc n) (Variable a nm) s = lookupVariable (Suc n) nm a s"
| "evaluate (Suc n) (Assign a nm e) s =
     andThen (evaluate (Suc n) e s) (\<lambda>v s1. assignVariable (Suc n) a nm v s1)"
| "evaluate (Suc n) (Call callee paren arguments) s =
     andThen (evaluate (Suc n) callee s) (\<lambda>c s1.
     andThen (evaluateArgs (Suc n) arguments s1) (\<lambda>args s2.
       case c of
         VFun f \<Rightarrow>
           if length args \<noteq> LoxFunction_Arity (funs s2 f)
           then Some (Inl (PanicArity (LoxFunction_Arity (funs s2 f)) (length args)), s2)
           else recoverReturn (LoxFunction_Call n f args s2)
       | VClass k \<Rightarrow>
           (case LoxClass_Arity (Suc n) k s2 of
              None \<Rightarrow> None
            | Some arity \<Rightarrow>
                if length args \<noteq> arity
                then Some (Inl (PanicArity arity (length args)), s2)
                else recoverReturn (LoxClass_Call n k args s2))
       | _ \<Rightarrow> Some (Inl (PanicNotCallable c), s2)))"
| "evaluate (Suc n) (GetExpr object nm) s =
     andThen (evaluate (Suc n) object s) (\<lambda>obj s1.
       case obj of
         VInst inst \<Rightarrow> LoxInstance_Get (Suc n) inst nm s1
       | _ \<Rightarrow> Some (Inl (RuntimeError nm ''Only instances have properties.''), s1))"
| "evaluate (Suc n) (SetExpr object nm e) s =
     andThen (evaluate (Suc n) object s) (\<lambda>obj s1.
       case obj of
         VInst inst \<Rightarrow>
           andThen (evaluate (Suc n) e s1) (\<lambda>v s2. Some (Inr v, LoxInstance_Set inst nm v s2))
       | _ \<Rightarrow> Some (Inl (RuntimeError nm ''Only instances have fields.''), s1))"
| "evaluate (Suc n) (ThisExpr a keyword) s = lookupVariable (Suc n) keyword a s"
| "evaluate (Suc n) (SuperExpr a keyword method) s = VisitSuperExpr (Suc n) a keyword method s"
| "evaluateArgs 0 es s = None"
| "evaluateArgs (Suc n) [] s = Some (Inr [], s)"
| "evaluateArgs (Suc n) (arg # rest) s =
     andThen (evaluate (Suc n) arg s) (\<lambda>v s1.
     andThen (evaluateArgs (Suc n) rest s1) (\<lambda>vs s2. Some (Inr (v # vs), s2)))"
| "LoxFunction_Call 0 f arguments s = None"
| "LoxFunction_Call (Suc n) f arguments s =
     (let (env, s1) = NewEnclosedEnvironment (closure (funs s f)) s
      in case defineParams env (fst (snd (declaration_of (funs s f)))) arguments s1 of
           (Inl p, s2) \<Rightarrow> Some (Inl p, s2)
         | (Inr u, s2) \<Rightarrow>
             andThen (executeBlock n (snd (snd (declaration_of (funs s f)))) env s2)
               (\<lambda>u s3. Some (Inr VNil, s3)))"
| "LoxClass_Call 0 c arguments s = None"
| "LoxClass_Call (Suc n) c arguments s =
     (let (inst, s1) = newInstance c s
      in case findMethod (Suc n) (classes s1) c ''init'' of
           None \<Rightarrow> None
         | Some None \<Rightarrow> Some (Inr (VInst inst), s1)
         | Some (Some initializer) \<Rightarrow>
             (let (b, s2) = Bind initializer inst s1
              in andThen (LoxFunction_Call n b arguments s2)
                   (\<lambda>v s3. Some (Inr (VInst inst), s3))))"
| "execute 0 st s = None"
| "execute (Suc n) (ExpressionStmt e) s =
     andThen (evaluate (Suc n) e s) (\<lambda>v s1. Some (Inr (), s1))"
| "execute (Suc n) (PrintStmt e) s =
     andThen (evaluate (Suc n) e s) (\<lambda>v s1. Some (Inr (), s1\<lparr>stdout := stdout s1 @ [v]\<rparr>))"
| "execute (Suc n) (VarStmt nm None) s = Some (Inr (), Define (environment s) (lexeme nm) VNil s)"
| "execute (Suc n) (VarStmt nm (Some initializer)) s =
     andThen (evaluate (Suc n) initializer s) (\<lambda>v s1.
       Some (Inr (), Define (environment s1) (lexeme nm) v s1))"
| "execute (Suc n) (BlockStmt statements) s =
     (let (env, s1) = NewEnclosedEnvironment (environment s) s
      in executeBlock (Suc n) statements env s1)"
| "execute (Suc n) (IfStmt condition thenBranch None) s =
     andThen (evaluate (Suc n) condition s) (\<lambda>v s1.
       if isTruthy v then execute (Suc n) thenBranch s1 else Some (Inr (), s1))"
| "execute (Suc n) (IfStmt condition thenBranch (Some elseBranch)) s =
     andThen (evaluate (Suc n) condition s) (\<lambda>v s1.
       if isTruthy v then execute (Suc n) thenBranch s1 else execute (Suc n) elseBranch s1)"
| "execute (Suc n) (WhileStmt condition body) s = whileLoop n 0 condition body s"
| "execute (Suc n) BreakStmt s = Some (Inl BreakException, s)"
| "execute (Suc n) (FunStmt nm params body) s =
     (let (f, s1) = newFunction (nm, params, body) (environment s) False s
      in Some (Inr (), Define (environment s1) (lexeme nm) (VFun f) s1))"
| "execute (Suc n) (ReturnStmt keyword None) s = Some (Inl (ReturnValue VNil), s)"
| "execute (Suc n) (ReturnStmt keyword (Some e)) s =
     andThen (evaluate (Suc n) e s) (\<lambda>v s1. Some (Inl (ReturnValue v), s1))"
| "execute (Suc n) (ClassStmt nm superclassExpr methodDecls) s =
     VisitClassStmt (Suc n) nm superclassExpr methodDecls s"
| "executeStmts 0 statements s = None"
| "executeStmts (Suc n) [] s = Some (Inr (), s)"
| "executeStmts (Suc n) (stmt # rest) s =
     andThen (execute (Suc n) stmt s) (\<lambda>u s1. executeStmts (Suc n) rest s1)"
| "executeBlock 0 statements env s = None"
| "executeBlock (Suc n) statements env s =
     (let previous = environment s
      in case executeStmts n statements (s\<lparr>environment := env\<rparr>) of
           None \<Rightarrow> None
         | Some (r, s1) \<Rightarrow> Some (r, s1\<lparr>environment := previous\<rparr>))"
| "whileLoop 0 defers condition body s = None"
| "whileLoop (Suc n) defers condition body s =
     (case evaluate n condition s of
        None \<Rightarrow> None
      | Some (Inl p, s1) \<Rightarrow> Some (runDefers defers (Inl p), s1)
      | Some (Inr v, s1) \<Rightarrow>
          if isTruthy v
          then (case execute n body s1 of
                  None \<Rightarrow> None
                | Some (Inl p, s2) \<Rightarrow> Some (runDefers (Suc defers) (Inl p), s2)
                | Some (Inr u, s2) \<Rightarrow> whileLoop n (Suc defers) condition body s2)
          else Some (runDefers defers (Inr ()), s1))"


  by pat_completeness auto

termination
  by (relation "measures
        [case_sum
           (case_sum (case_sum (\<lambda>(n, e, s). n) (\<lambda>(n, es, s). n))
                     (case_sum (\<lambda>(n, f, args, s). n) (\<lambda>(n, c, args, s). n)))
           (case_sum (case_sum (\<lambda>(n, st, s). n) (\<lambda>(n, sts, s). n))
                     (case_sum (\<lambda>(n, sts, env, s). n) (\<lambda>(n, k, c, b, s). n))),
         case_sum
           (case_sum (case_sum (\<lambda>(n, e, s). 0) (\<lambda>(n, es, s). 0))
                     (case_sum (\<lambda>(n, f, args, s). 0) (\<lambda>(n, c, args, s). 0)))
           (case_sum (case_sum (\<lambda>(n, st, s). 1) (\<lambda>(n, sts, s). 1))
                     (case_sum (\<lambda>(n, sts, env, s). 1) (\<lambda>(n, k, c, b, s). 0))),
         case_sum
           (case_sum (case_sum (\<lambda>(n, e, s). size e) (\<lambda>(n, es, s). size_list size es))
                     (case_sum (\<lambda>(n, f, args, s). 0) (\<lambda>(n, c, args, s). 0)))
           (case_sum (case_sum (\<lambda>(n, st, s). size st) (\<lambda>(n, sts, s). size_list size sts))
                     (case_sum (\<lambda>(n, sts, env, s). size_list size sts) (\<lambda>(n, k, c, b, s). 0)))]")
     auto

text \<open>
  \<open>InterpretStatements\<close>: the deferred function prints the value of a \<open>ReturnValue\<close> that
  reaches the top level and panics again with every other panic.
\<close>

definition InterpretStatements :: "nat \<Rightarrow> Stmt list \<Rightarrow> Interp \<Rightarrow> unit result" where
  "InterpretStatements n statements s =
     (case executeStmts n statements s of
        Some (Inl (ReturnValue v), s1) \<Rightarrow> Some (Inr (), s1\<lparr>stdout := stdout s1 @ [v]\<rparr>)
      | r \<Rightarrow> r)"

text \<open>A token of the given kind and lexeme on line 1, for writing concrete inputs.\<close>

definition mkToken :: "TokenType \<Rightarrow> string \<Rightarrow> Token" where
  "mkToken t l = \<lparr>tokenType = t, lexeme = l, literal = VNil, line = 1, start = 0\<rparr>"

section \<open>The resolver (resolver.go)\<close>

datatype FunctionType = FunctionNone | FunctionFunction | FunctionMethod | FunctionInitializer

datatype ClassType = ClassNone | ClassClass | ClassSubclass

text \<open>
  The resolver holds a pointer to the interpreter and writes its side table through it;
  the interpreter state is a field of the record. A scope is a Go map from names to the
  "defined" flag. A panic of the resolver is \<open>Inl\<close> with its message.
\<close>

record Resolver =
  interpreter :: Interp
  scopes :: "(string \<rightharpoonup> bool) list"
  currentFunction :: FunctionType
  currentClass :: ClassType

definition NewResolver :: "Interp \<Rightarrow> Resolver" where
  "NewResolver i =
     \<lparr>interpreter = i, scopes = [], currentFunction = FunctionNone, currentClass = ClassNone\<rparr>"

definition thenResolve :: "string + Resolver \<Rightarrow> (Resolver \<Rightarrow> string + Resolver) \<Rightarrow> string + Resolver" where
  "thenResolve x f = (case x of Inl msg \<Rightarrow> Inl msg | Inr r \<Rightarrow> f r)"

definition beginScope :: "Resolver \<Rightarrow> Resolver" where
  "beginScope r = r\<lparr>scopes := scopes r @ [Map.empty]\<rparr>"

text \<open>\<open>r.scopes[:len(r.scopes)-1]\<close> panics in the Go runtime on an empty slice.\<close>

definition endScope :: "Resolver \<Rightarrow> string + Resolver" where
  "endScope r =
     (if scopes r = [] then Inl ''slice bounds out of range''
      else Inr (r\<lparr>scopes := butlast (scopes r)\<rparr>))"

definition declare_name :: "Token \<Rightarrow> Resolver \<Rightarrow> string + Resolver" where
  "declare_name nm r =
     (if scopes r = [] then Inr r
      else (case last (scopes r) (lexeme nm) of
              Some defined \<Rightarrow>
                Inl (''Variable with name '' @ [CHR 0x27] @ lexeme nm @ [CHR 0x27]
                       @ '' already declared in this scope.'')
            | None \<Rightarrow>
                Inr (r\<lparr>scopes := butlast (scopes r) @ [(last (scopes r))(lexeme nm \<mapsto> False)]\<rparr>)))"

definition define_name :: "Token \<Rightarrow> Resolver \<Rightarrow> Resolver" where
  "define_name nm r =
     (if scopes r = [] then r
      else r\<lparr>scopes := butlast (scopes r) @ [(last (scopes r))(lexeme nm \<mapsto> True)]\<rparr>)"

text \<open>
  The loop of \<open>resolveLocal\<close>, over the scopes from the innermost outwards: the number of
  scopes passed before the first one that has the name.
\<close>

fun scopeDistance :: "(string \<rightharpoonup> bool) list \<Rightarrow> string \<Rightarrow> nat \<Rightarrow> nat option" where
  "scopeDistance [] nm d = None"
| "scopeDistance (scope # outer) nm d =
     (case scope nm of Some defined \<Rightarrow> Some d | None \<Rightarrow> scopeDistance outer nm (Suc d))"

definition resolveLocal :: "nat \<Rightarrow> Token \<Rightarrow> Resolver \<Rightarrow> Resolver" where
  "resolveLocal expr nm r =
     (case scopeDistance (rev (scopes r)) (lexeme nm) 0 of
        Some d \<Rightarrow> r\<lparr>interpreter := resolve expr (int d) (interpreter r)\<rparr>
      | None \<Rightarrow> r)"

definition VisitVariableExpr :: "nat \<Rightarrow> Token \<Rightarrow> Resolver \<Rightarrow> string + Resolver" where
  "VisitVariableExpr expr nm r =
     (if scopes r \<noteq> [] \<and> last (scopes r) (lexeme nm) = Some False
      then Inl (''Cannot read local variable '' @ [CHR 0x27] @ lexeme nm @ [CHR 0x27]
                  @ '' in its own initializer.'')
      else Inr (resolveLocal expr nm r))"

definition VisitThisExpr :: "nat \<Rightarrow> Token \<Rightarrow> Resolver \<Rightarrow> string + Resolver" where
  "VisitThisExpr expr keyword r =
     (if currentClass r = ClassNone then Inl ''Cannot use 'this' outside of a class.''
      else Inr (resolveLocal expr keyword r))"

definition VisitSuperExpr_resolver :: "nat \<Rightarrow> Token \<Rightarrow> Resolver \<Rightarrow> string + Resolver" where
  "VisitSuperExpr_resolver expr keyword r =
     (if currentClass r = ClassNone then Inl ''Cannot use 'super' outside of a class.''
      else if currentClass r \<noteq> ClassSubclass
      then Inl ''Cannot use 'super' in a class with no superclass.''
      else Inr (resolveLocal expr keyword r))"

text \<open>The parameter loop of \<open>resolveFunction\<close>: \<open>declare\<close>, then \<open>define\<close>.\<close>

fun declareParams :: "Token list \<Rightarrow> Resolver \<Rightarrow> string + Resolver" where
  "declareParams [] r = Inr r"
| "declareParams (param # ps) r =
     thenResolve (declare_name param r) (\<lambda>r1. declareParams ps (define_name param r1))"

text \<open>
  \<open>r.scopes[len(r.scopes)-1][name] = true\<close>, as \<open>VisitClassStmt\<close> writes \<open>super\<close> and
  \<open>this\<close> into the scope it has just opened.
\<close>

definition setInnermost :: "string \<Rightarrow> Resolver \<Rightarrow> Resolver" where
  "setInnermost nm r = r\<lparr>scopes := butlast (scopes r) @ [(last (scopes r))(nm \<mapsto> True)]\<rparr>"

text \<open>
  \<open>resolveStatement\<close> and \<open>resolveExpression\<close> dispatch on the node as \<open>Accept\<close> does,
  one equation per \<open>Visit\<close> method of the resolver. \<open>resolveFunction\<close> takes the
  parameters and the body of the \<open>*FunStmt\<close>; \<open>resolveMethods\<close> is the loop over the
  methods in \<open>VisitClassStmt\<close>.
\<close>

function (sequential) resolveStatement :: "Stmt \<Rightarrow> Resolver \<Rightarrow> string + Resolver"
  and Resolve :: "Stmt list \<Rightarrow> Resolver \<Rightarrow> string + Resolver"
  and resolveExpression :: "Expr \<Rightarrow> Resolver \<Rightarrow> string + Resolver"
  and resolveArguments :: "Expr list \<Rightarrow> Resolver \<Rightarrow> string + Resolver"
  and resolveFunction :: "Token list \<Rightarrow> Stmt list \<Rightarrow> FunctionType \<Rightarrow> Resolver \<Rightarrow> string + Resolver"
  and resolveMethods :: "(Token \<times> Token list \<times> Stmt list) list \<Rightarrow> Resolver \<Rightarrow> string + Resolver"
where
  "resolveStatement (BlockStmt statements) r =
     thenResolve (Resolve statements (beginScope r)) endScope"
| "resolveStatement (VarStmt nm None) r =
     thenResolve (declare_name nm r) (\<lambda>r1. Inr (define_name nm r1))"
| "resolveStatement (VarStmt nm (Some initializer)) r =
     thenResolve (declare_name nm r) (\<lambda>r1.
     thenResolve (resolveExpression initializer r1) (\<lambda>r2. Inr (define_name nm r2)))"
| "resolveStatement (ExpressionStmt e) r = resolveExpression e r"
| "resolveStatement (IfStmt condition thenBranch None) r =
     thenResolve (resolveExpression condition r) (\<lambda>r1. resolveStatement thenBranch r1)"
| "resolveStatement (IfStmt condition thenBranch (Some elseBranch)) r =
     thenResolve (resolveExpression condition r) (\<lambda>r1.
     thenResolve (resolveStatement thenBranch r1) (\<lambda>r2. resolveStatement elseBranch r2))"
| "resolveStatement (PrintStmt e) r = resolveExpression e r"
| "resolveStatement (ReturnStmt keyword v) r =
     (if currentFunction r = FunctionNone then Inl ''Cannot return from top-level code.''
      else (case v of None \<Rightarrow> Inr r | Some e \<Rightarrow> resolveExpression e r))"
| "resolveStatement (WhileStmt condition body) r =
     thenResolve (resolveExpression condition r) (\<lambda>r1. resolveStatement body r1)"
| "resolveStatement (FunStmt nm params body) r =
     thenResolve (declare_name nm r) (\<lambda>r1.
       resolveFunction params body FunctionFunction (define_name nm r1))"
| "resolveStatement BreakStmt r = Inr r"
| "resolveStatement (ClassStmt nm superclassExpr methodDecls) r =
     (let enclosingClass = currentClass r
      in thenResolve (declare_name nm (r\<lparr>currentClass := ClassClass\<rparr>)) (\<lambda>r1.
         thenResolve
           (case superclassExpr of
              None \<Rightarrow> Inr (define_name nm r1)
            | Some (a, tok) \<Rightarrow>
                thenResolve (VisitVariableExpr a tok ((define_name nm r1)\<lparr>currentClass := ClassSubclass\<rparr>))
                  (\<lambda>r2. Inr (setInnermost ''super'' (beginScope r2))))
           (\<lambda>r3.
         thenResolve (resolveMethods methodDecls (setInnermost ''this'' (beginScope r3))) (\<lambda>r4.
         thenResolve (endScope r4) (\<lambda>r5.
         thenResolve (case superclassExpr of None \<Rightarrow> Inr r5 | Some sc \<Rightarrow> endScope r5) (\<lambda>r6.
           Inr (r6\<lparr>currentClass := enclosingClass\<rparr>)))))))"
| "Resolve [] r = Inr r"
| "Resolve (statement # rest) r =
     thenResolve (resolveStatement statement r) (\<lambda>r1. Resolve rest r1)"
| "resolveExpression (Binary left operator right) r =
     thenResolve (resolveExpression left r) (\<lambda>r1. resolveExpression right r1)"
| "resolveExpression (Grouping e) r = resolveExpression e r"
| "resolveExpression (Literal v) r = Inr r"
| "resolveExpression (Unary operator right) r = resolveExpression right r"
| "resolveExpression (Variable a nm) r = VisitVariableExpr a nm r"
| "resolveExpression (Assign a nm e) r =
     thenResolve (resolveExpression e r) (\<lambda>r1. Inr (resolveLocal a nm r1))"
| "resolveExpression (Call callee paren arguments) r =
     thenResolve (resolveExpression callee r) (\<lambda>r1. resolveArguments arguments r1)"
| "resolveExpression (ThisExpr a keyword) r = VisitThisExpr a keyword r"
| "resolveExpression (SuperExpr a keyword method) r = VisitSuperExpr_resolver a keyword r"
| "resolveExpression (GetExpr object nm) r = resolveExpression object r"
| "resolveExpression (SetExpr object nm e) r =
     thenResolve (resolveExpression e r) (\<lambda>r1. resolveExpression object r1)"
| "resolveArguments [] r = Inr r"
| "resolveArguments (arg # rest) r =
     thenResolve (resolveExpression arg r) (\<lambda>r1. resolveArguments rest r1)"
| "resolveFunction params body functionType r =
     (let enclosingFunction = currentFunction r
      in thenResolve (declareParams params (beginScope (r\<lparr>currentFunction := functionType\<rparr>))) (\<lambda>r1.
         thenResolve (Resolve body r1) (\<lambda>r2.
         thenResolve (endScope r2) (\<lambda>r3.
           Inr (r3\<lparr>currentFunction := enclosingFunction\<rparr>)))))"
| "resolveMethods [] r = Inr r"
| "resolveMethods (method # rest) r =
     thenResolve
       (resolveFunction (fst (snd method)) (snd (snd method))
          (if lexeme (fst method) = ''init'' then FunctionInitializer else FunctionMethod) r)
       (\<lambda>r1. resolveMethods rest r1)"
  by pat_completeness auto
termination
  by (relation "measures
        [case_sum
           (case_sum (\<lambda>(st, r). 1) (case_sum (\<lambda>(sts, r). 1) (\<lambda>(e, r). 0)))
           (case_sum (\<lambda>(es, r). 0) (case_sum (\<lambda>(ps, body, ft, r). 1) (\<lambda>(ms, r). 1))),
         case_sum
           (case_sum (\<lambda>(st, r). 2 * size st)
              (case_sum (\<lambda>(sts, r). 2 * size_list size sts) (\<lambda>(e, r). size e)))
           (case_sum (\<lambda>(es, r). size_list size es)
              (case_sum (\<lambda>(ps, body, ft, r). 2 * size_list size body + 1)
                 (\<lambda>(ms, r). 2 * size_list (size_prod (\<lambda>x. 0) (size_prod (\<lambda>x. 0) (size_list size))) ms)))]")
     auto

text \<open>
  The pipeline of the repository's tests: \<open>resolver.Resolve(statements)\<close>, then
  \<open>interpreter.InterpretStatements(statements)\<close> on a new interpreter. The result is the
  resolver's panic, or the outcome of the run with what was printed.
\<close>

definition resolveAndInterpret :: "nat \<Rightarrow> Stmt list \<Rightarrow> (string + (Panic + unit) \<times> val list) option" where
  "resolveAndInterpret n statements =
     (case Resolve statements (NewResolver NewInterpreter) of
        Inl msg \<Rightarrow> Some (Inl msg)
      | Inr r \<Rightarrow>
          (case InterpretStatements n statements (interpreter r) of
             None \<Rightarrow> None
           | Some (x, s) \<Rightarrow> Some (Inr (x, stdout s))))"

section \<open>The parser (parser.go)\<close>

text \<open>
  \<open>p.error\<close> formats \<open>"[line N] Error at 'lexeme': message"\<close>, writes the line to
  \<open>stdErr\<close> and returns it as a \<open>ParseError\<close>. The formatted line is kept as the token
  and the message it is made of. \<open>GoPanic\<close> is a panic of the Go runtime: an index out of
  range of \<open>p.tokens\<close>, or a write through a nil \<open>stdErr\<close>.
\<close>

datatype ParsePanic = ParseError Token string | GoPanic

text \<open>
  \<open>stdErr\<close> is the writer: \<open>None\<close> for a nil writer, otherwise the lines written so far.
  \<open>nextNode\<close> is the address that the next allocated \<open>Variable\<close> or \<open>Assign\<close> node gets.
\<close>

record Parser =
  tokens :: "Token list"
  current :: nat
  stdErr :: "(Token \<times> string) list option"
  nextNode :: nat

definition NewParser :: "Token list \<Rightarrow> (Token \<times> string) list option \<Rightarrow> Parser" where
  "NewParser toks w = \<lparr>tokens = toks, current = 0, stdErr = w, nextNode = 0\<rparr>"

type_synonym 'a parsed = "(ParsePanic + 'a) \<times> Parser"

definition step :: "'a parsed \<Rightarrow> ('a \<Rightarrow> Parser \<Rightarrow> 'b parsed option) \<Rightarrow> 'b parsed option" where
  "step x f = (case x of (Inl e, p) \<Rightarrow> Some (Inl e, p) | (Inr a, p) \<Rightarrow> f a p)"

definition pThen :: "'a parsed option \<Rightarrow> ('a \<Rightarrow> Parser \<Rightarrow> 'b parsed option) \<Rightarrow> 'b parsed option" where
  "pThen x f = (case x of None \<Rightarrow> None | Some y \<Rightarrow> step y f)"

definition peek :: "Parser \<Rightarrow> Token parsed" where
  "peek p =
     (if current p < length (tokens p) then (Inr (tokens p ! current p), p) else (Inl GoPanic, p))"

definition previous :: "Parser \<Rightarrow> Token parsed" where
  "previous p =
     (if 0 < current p \<and> current p - 1 < length (tokens p)
      then (Inr (tokens p ! (current p - 1)), p) else (Inl GoPanic, p))"

definition isAtEnd :: "Parser \<Rightarrow> bool parsed" where
  "isAtEnd p = (case peek p of (Inl e, q) \<Rightarrow> (Inl e, q) | (Inr t, q) \<Rightarrow> (Inr (tokenType t = TokenEof), q))"

definition check :: "TokenType \<Rightarrow> Parser \<Rightarrow> bool parsed" where
  "check t p =
     (case isAtEnd p of
        (Inl e, q) \<Rightarrow> (Inl e, q)
      | (Inr True, q) \<Rightarrow> (Inr False, q)
      | (Inr False, q) \<Rightarrow>
          (case peek q of (Inl e, q1) \<Rightarrow> (Inl e, q1) | (Inr tk, q1) \<Rightarrow> (Inr (tokenType tk = t), q1)))"

definition advance :: "Parser \<Rightarrow> Token parsed" where
  "advance p =
     (case isAtEnd p of
        (Inl e, q) \<Rightarrow> (Inl e, q)
      | (Inr True, q) \<Rightarrow> previous q
      | (Inr False, q) \<Rightarrow> previous (q\<lparr>current := current q + 1\<rparr>))"

fun match_tok :: "TokenType list \<Rightarrow> Parser \<Rightarrow> bool parsed" where
  "match_tok [] p = (Inr False, p)"
| "match_tok (t # types) p =
     (case check t p of
        (Inl e, q) \<Rightarrow> (Inl e, q)
      | (Inr True, q) \<Rightarrow> (case advance q of (Inl e, q1) \<Rightarrow> (Inl e, q1) | (Inr tk, q1) \<Rightarrow> (Inr True, q1))
      | (Inr False, q) \<Rightarrow> match_tok types q)"

text \<open>\<open>p.error(token, message)\<close>: the line is written, the \<open>ParseError\<close> is returned.\<close>

definition parser_error :: "Token \<Rightarrow> string \<Rightarrow> Parser \<Rightarrow> ParsePanic parsed" where
  "parser_error token message p =
     (case stdErr p of
        None \<Rightarrow> (Inl GoPanic, p)
      | Some written \<Rightarrow> (Inr (ParseError token message), p\<lparr>stdErr := Some (written @ [(token, message)])\<rparr>))"

text \<open>\<open>panic(p.error(p.peek(), message))\<close>\<close>

definition panic_at_peek :: "string \<Rightarrow> Parser \<Rightarrow> 'a parsed" where
  "panic_at_peek message p =
     (case peek p of
        (Inl e, q) \<Rightarrow> (Inl e, q)
      | (Inr tk, q) \<Rightarrow> (case parser_error tk message q of (Inl e, q1) \<Rightarrow> (Inl e, q1) | (Inr e, q1) \<Rightarrow> (Inl e, q1)))"

definition consume :: "TokenType \<Rightarrow> string \<Rightarrow> Parser \<Rightarrow> Token parsed" where
  "consume t message p =
     (case check t p of
        (Inl e, q) \<Rightarrow> (Inl e, q)
      | (Inr True, q) \<Rightarrow> advance q
      | (Inr False, q) \<Rightarrow> panic_at_peek message q)"

definition newNode :: "Parser \<Rightarrow> nat \<times> Parser" where
  "newNode p = (nextNode p, p\<lparr>nextNode := Suc (nextNode p)\<rparr>)"

text \<open>
  \<open>if len(xs) >= 255 { p.error(p.peek(), message) }\<close>: the error is reported and the
  \<open>ParseError\<close> it returns is dropped.
\<close>

definition report_limit :: "nat \<Rightarrow> string \<Rightarrow> Parser \<Rightarrow> unit parsed" where
  "report_limit len message p =
     (if len \<ge> 255
      then (case peek p of
              (Inl e, q) \<Rightarrow> (Inl e, q)
            | (Inr tk, q) \<Rightarrow>
                (case parser_error tk message q of (Inl e, q1) \<Rightarrow> (Inl e, q1) | (Inr e, q1) \<Rightarrow> (Inr (), q1)))
      else (Inr (), p))"

definition finishCall_end :: "Expr \<Rightarrow> Expr list \<Rightarrow> Parser \<Rightarrow> Expr parsed option" where
  "finishCall_end callee arguments p =
     step (consume TokenRightParen ''Expect ')' after arguments.'' p)
       (\<lambda>paren p1. Some (Inr (Call callee paren arguments), p1))"

text \<open>
  The expression grammar. The first argument is fuel, used by every call; \<open>None\<close> is a parse
  that has not ended within it. A function whose name ends in \<open>_loop\<close> is the \<open>for\<close> loop
  of the method of that name; \<open>finishCall_args\<close> is the loop of \<open>finishCall\<close>.
\<close>

function (sequential) expression :: "nat \<Rightarrow> Parser \<Rightarrow> Expr parsed option"
  and assignment :: "nat \<Rightarrow> Parser \<Rightarrow> Expr parsed option"
  and equality :: "nat \<Rightarrow> Parser \<Rightarrow> Expr parsed option"
  and equality_loop :: "nat \<Rightarrow> Expr \<Rightarrow> Parser \<Rightarrow> Expr parsed option"
  and comparison :: "nat \<Rightarrow> Parser \<Rightarrow> Expr parsed option"
  and comparison_loop :: "nat \<Rightarrow> Expr \<Rightarrow> Parser \<Rightarrow> Expr parsed option"
  and term_expr :: "nat \<Rightarrow> Parser \<Rightarrow> Expr parsed option"
  and term_loop :: "nat \<Rightarrow> Expr \<Rightarrow> Parser \<Rightarrow> Expr parsed option"
  and factor :: "nat \<Rightarrow> Parser \<Rightarrow> Expr parsed option"
  and factor_loop :: "nat \<Rightarrow> Expr \<Rightarrow> Parser \<Rightarrow> Expr parsed option"
  and unary :: "nat \<Rightarrow> Parser \<Rightarrow> Expr parsed option"
  and call :: "nat \<Rightarrow> Parser \<Rightarrow> Expr parsed option"
  and call_loop :: "nat \<Rightarrow> Expr \<Rightarrow> Parser \<Rightarrow> Expr parsed option"
  and finishCall :: "nat \<Rightarrow> Expr \<Rightarrow> Parser \<Rightarrow> Expr parsed option"
  and finishCall_args :: "nat \<Rightarrow> Expr list \<Rightarrow> Parser \<Rightarrow> (Expr list) parsed option"
  and primary :: "nat \<Rightarrow> Parser \<Rightarrow> Expr parsed option"
where
  "expression 0 p = None"
| "expression (Suc n) p = assignment n p"
| "assignment 0 p = None"
| "assignment (Suc n) p =
     pThen (equality n p) (\<lambda>expr p1.
     step (match_tok [TokenEqual] p1) (\<lambda>m p2.
       if m
       then step (previous p2) (\<lambda>equals p3.
            pThen (assignment n p3) (\<lambda>v p4.
              case expr of
                Variable a nm \<Rightarrow> (let (addr, p5) = newNode p4 in Some (Inr (Assign addr nm v), p5))
              | _ \<Rightarrow>
                  (case parser_error equals ''Invalid assignment target.'' p4 of
                     (Inl e, p5) \<Rightarrow> Some (Inl e, p5)
                   | (Inr e, p5) \<Rightarrow> Some (Inl e, p5))))
       else Some (Inr expr, p2)))"
| "equality 0 p = None"
| "equality (Suc n) p = pThen (comparison n p) (\<lambda>expr p1. equality_loop n expr p1)"
| "equality_loop 0 expr p = None"
| "equality_loop (Suc n) expr p =
     step (match_tok [TokenBangEqual, TokenEqualEqual] p) (\<lambda>m p1.
       if m
       then step (previous p1) (\<lambda>operator p2.
            pThen (comparison n p2) (\<lambda>right p3.
              equality_loop n (Binary expr operator right) p3))
       else Some (Inr expr, p1))"
| "comparison 0 p = None"
| "comparison (Suc n) p = pThen (term_expr n p) (\<lambda>expr p1. comparison_loop n expr p1)"
| "comparison_loop 0 expr p = None"
| "comparison_loop (Suc n) expr p =
     step (match_tok [TokenGreater, TokenGreaterEqual, TokenLess, TokenLessEqual] p) (\<lambda>m p1.
       if m
       then step (previous p1) (\<lambda>operator p2.
            pThen (term_expr n p2) (\<lambda>right p3.
              comparison_loop n (Binary expr operator right) p3))
       else Some (Inr expr, p1))"
| "term_expr 0 p = None"
| "term_expr (Suc n) p = pThen (factor n p) (\<lambda>expr p1. term_loop n expr p1)"
| "term_loop 0 expr p = None"
| "term_loop (Suc n) expr p =
     step (match_tok [TokenMinus, TokenPlus] p) (\<lambda>m p1.
       if m
       then step (previous p1) (\<lambda>operator p2.
            pThen (factor n p2) (\<lambda>right p3.
              term_loop n (Binary expr operator right) p3))
       else Some (Inr expr, p1))"
| "factor 0 p = None"
| "factor (Suc n) p = pThen (unary n p) (\<lambda>expr p1. factor_loop n expr p1)"
| "factor_loop 0 expr p = None"
| "factor_loop (Suc n) expr p =
     step (match_tok [TokenSlash, TokenStar] p) (\<lambda>m p1.
       if m
       then step (previous p1) (\<lambda>operator p2.
            pThen (unary n p2) (\<lambda>right p3.
              factor_loop n (Binary expr operator right) p3))
       else Some (Inr expr, p1))"
| "unary 0 p = None"
| "unary (Suc n) p =
     step (match_tok [TokenBang, TokenMinus] p) (\<lambda>m p1.
       if m
       then step (previous p1) (\<lambda>operator p2.
            pThen (unary n p2) (\<lambda>right p3. Some (Inr (Unary operator right), p3)))
       else call n p1)"
| "call 0 p = None"
| "call (Suc n) p = pThen (primary n p) (\<lambda>expr p1. call_loop n expr p1)"
| "call_loop 0 expr p = None"
| "call_loop (Suc n) expr p =
     step (match_tok [TokenLeftParen] p) (\<lambda>m p1.
       if m
       then pThen (finishCall n expr p1) (\<lambda>e p2. call_loop n e p2)
       else Some (Inr expr, p1))"
| "finishCall 0 callee p = None"
| "finishCall (Suc n) callee p =
     step (check TokenRightParen p) (\<lambda>c p1.
       if \<not> c
       then pThen (finishCall_args n [] p1) (\<lambda>arguments p2. finishCall_end callee arguments p2)
       else finishCall_end callee [] p1)"
| "finishCall_args 0 arguments p = None"
| "finishCall_args (Suc n) arguments p =
     step (report_limit (length arguments) ''Cannot have more than 255 arguments.'' p) (\<lambda>u p1.
     pThen (expression n p1) (\<lambda>e p2.
     step (match_tok [TokenComma] p2) (\<lambda>m p3.
       if m
       then finishCall_args n (arguments @ [e]) p3
       else Some (Inr (arguments @ [e]), p3))))"
| "primary 0 p = None"
| "primary (Suc n) p =
     step (match_tok [TokenIdentifier] p) (\<lambda>m p1.
       if m
       then step (previous p1) (\<lambda>nm p2. let (addr, p3) = newNode p2 in Some (Inr (Variable addr nm), p3))
       else
     step (match_tok [TokenFalse] p1) (\<lambda>m p2.
       if m then Some (Inr (Literal (VBool False)), p2) else
     step (match_tok [TokenTrue] p2) (\<lambda>m p3.
       if m then Some (Inr (Literal (VBool True)), p3) else
     step (match_tok [TokenNil] p3) (\<lambda>m p4.
       if m then Some (Inr (Literal VNil), p4) else
     step (match_tok [TokenNumber, TokenString] p4) (\<lambda>m p5.
       if m then step (previous p5) (\<lambda>tk p6. Some (Inr (Literal (literal tk)), p6)) else
     step (match_tok [TokenLeftParen] p5) (\<lambda>m p6.
       if m
       then pThen (expression n p6) (\<lambda>expr p7.
            step (consume TokenRightParen ''Expect ')' after expression.'' p7) (\<lambda>tk p8.
              Some (Inr (Grouping expr), p8)))
       else Some (panic_at_peek ''Expect expression.'' p6)))))))"
  by pat_completeness auto
termination
  by (relation "measure
        (case_sum
           (case_sum (case_sum (case_sum fst fst) (case_sum fst fst))
                     (case_sum (case_sum fst fst) (case_sum fst fst)))
           (case_sum (case_sum (case_sum fst fst) (case_sum fst fst))
                     (case_sum (case_sum fst fst) (case_sum fst fst))))")
     auto

text \<open>\<open>Parse\<close>: a \<open>ParseError\<close> is returned as the error, any other panic goes on.\<close>

definition Parse :: "nat \<Rightarrow> Parser \<Rightarrow> Expr parsed option" where
  "Parse n p = expression n p"
text \<open>The statement grammar. The methods that do not recurse come first.\<close>

definition varDeclaration :: "nat \<Rightarrow> Parser \<Rightarrow> Stmt parsed option" where
  "varDeclaration n p =
     step (consume TokenIdentifier ''Expect variable name.'' p) (\<lambda>nm p1.
     step (match_tok [TokenEqual] p1) (\<lambda>m p2.
       if m
       then pThen (expression n p2) (\<lambda>initializer p3.
            step (consume TokenSemicolon ''Expect ';' after variable declaration.'' p3) (\<lambda>tk p4.
              Some (Inr (VarStmt nm (Some initializer)), p4)))
       else step (consume TokenSemicolon ''Expect ';' after variable declaration.'' p2) (\<lambda>tk p3.
              Some (Inr (VarStmt nm None), p3))))"

definition printStatement :: "nat \<Rightarrow> Parser \<Rightarrow> Stmt parsed option" where
  "printStatement n p =
     pThen (expression n p) (\<lambda>v p1.
     step (consume TokenSemicolon ''Expect ';' after value.'' p1) (\<lambda>tk p2.
       Some (Inr (PrintStmt v), p2)))"

definition expressionStatement :: "nat \<Rightarrow> Parser \<Rightarrow> Stmt parsed option" where
  "expressionStatement n p =
     pThen (expression n p) (\<lambda>expr p1.
     step (consume TokenSemicolon ''Expect ';' after expression.'' p1) (\<lambda>tk p2.
       Some (Inr (ExpressionStmt expr), p2)))"

definition breakStatement :: "Parser \<Rightarrow> Stmt parsed option" where
  "breakStatement p =
     step (consume TokenSemicolon ''Expect ';' after 'break'.'' p) (\<lambda>tk p1. Some (Inr BreakStmt, p1))"

definition returnStatement :: "nat \<Rightarrow> Parser \<Rightarrow> Stmt parsed option" where
  "returnStatement n p =
     step (previous p) (\<lambda>keyword p1.
     step (check TokenSemicolon p1) (\<lambda>c p2.
       if \<not> c
       then pThen (expression n p2) (\<lambda>v p3.
            step (consume TokenSemicolon ''Expect ';' after return value.'' p3) (\<lambda>tk p4.
              Some (Inr (ReturnStmt keyword (Some v)), p4)))
       else step (consume TokenSemicolon ''Expect ';' after return value.'' p2) (\<lambda>tk p3.
              Some (Inr (ReturnStmt keyword None), p3))))"

text \<open>The parameter loop of \<open>function\<close>, with the parameters read so far.\<close>

fun function_params :: "nat \<Rightarrow> Token list \<Rightarrow> Parser \<Rightarrow> (Token list) parsed option" where
  "function_params 0 parameters p = None"
| "function_params (Suc n) parameters p =
     step (report_limit (length parameters) ''Cannot have more than 255 parameters.'' p) (\<lambda>u p1.
     step (consume TokenIdentifier ''Expect parameter name.'' p1) (\<lambda>param p2.
     step (match_tok [TokenComma] p2) (\<lambda>m p3.
       if m
       then function_params n (parameters @ [param]) p3
       else Some (Inr (parameters @ [param]), p3))))"

text \<open>The three optional clauses of a \<open>for\<close> statement, up to the closing parenthesis.\<close>

definition forClauses :: "nat \<Rightarrow> Parser \<Rightarrow> (Stmt option \<times> Expr option \<times> Expr option) parsed option" where
  "forClauses n p =
     step (consume TokenLeftParen ''Expect '(' after 'for'.'' p) (\<lambda>tk p1.
     pThen
       (step (match_tok [TokenSemicolon] p1) (\<lambda>m p2.
          if m then Some (Inr None, p2)
          else step (match_tok [TokenVar] p2) (\<lambda>m p3.
                 if m then pThen (varDeclaration n p3) (\<lambda>st p4. Some (Inr (Some st), p4))
                 else pThen (expressionStatement n p3) (\<lambda>st p4. Some (Inr (Some st), p4)))))
       (\<lambda>initializer p2.
     pThen
       (step (check TokenSemicolon p2) (\<lambda>c p3.
          if \<not> c then pThen (expression n p3) (\<lambda>e p4. Some (Inr (Some e), p4))
          else Some (Inr None, p3)))
       (\<lambda>condition p3.
     step (consume TokenSemicolon ''Expect ';' after loop condition.'' p3) (\<lambda>tk p4.
     pThen
       (step (check TokenRightParen p4) (\<lambda>c p5.
          if \<not> c then pThen (expression n p5) (\<lambda>e p6. Some (Inr (Some e), p6))
          else Some (Inr None, p5)))
       (\<lambda>increment p5.
     step (consume TokenRightParen ''Expect ')' after for clauses.'' p5) (\<lambda>tk p6.
       Some (Inr (initializer, condition, increment), p6)))))))"

text \<open>The desugaring at the end of \<open>forStatement\<close>.\<close>

definition forDesugar :: "Stmt option \<Rightarrow> Expr option \<Rightarrow> Expr option \<Rightarrow> Stmt \<Rightarrow> Stmt" where
  "forDesugar initializer condition increment body =
     (let body1 = (case increment of None \<Rightarrow> body | Some inc \<Rightarrow> BlockStmt [body, ExpressionStmt inc]);
          condition1 = (case condition of None \<Rightarrow> Literal (VBool True) | Some c \<Rightarrow> c);
          body2 = WhileStmt condition1 body1
      in case initializer of None \<Rightarrow> body2 | Some ini \<Rightarrow> BlockStmt [ini, body2])"

function (sequential) declaration_stmt :: "nat \<Rightarrow> Parser \<Rightarrow> Stmt parsed option"
  and statement :: "nat \<Rightarrow> Parser \<Rightarrow> Stmt parsed option"
  and block :: "nat \<Rightarrow> Parser \<Rightarrow> (Stmt list) parsed option"
  and block_loop :: "nat \<Rightarrow> Stmt list \<Rightarrow> Parser \<Rightarrow> (Stmt list) parsed option"
  and ifStatement :: "nat \<Rightarrow> Parser \<Rightarrow> Stmt parsed option"
  and whileStatement :: "nat \<Rightarrow> Parser \<Rightarrow> Stmt parsed option"
  and forStatement :: "nat \<Rightarrow> Parser \<Rightarrow> Stmt parsed option"
  and function_stmt :: "nat \<Rightarrow> string \<Rightarrow> Parser \<Rightarrow> Stmt parsed option"
where
  "declaration_stmt 0 p = None"
| "declaration_stmt (Suc n) p =
     step (match_tok [TokenFun] p) (\<lambda>m p1.
       if m then function_stmt n ''function'' p1 else
     step (match_tok [TokenVar] p1) (\<lambda>m p2.
       if m then varDeclaration n p2 else statement n p2))"
| "statement 0 p = None"
| "statement (Suc n) p =
     step (match_tok [TokenPrint] p) (\<lambda>m p1.
       if m then printStatement n p1 else
     step (match_tok [TokenReturn] p1) (\<lambda>m p2.
       if m then returnStatement n p2 else
     step (match_tok [TokenLeftBrace] p2) (\<lambda>m p3.
       if m then pThen (block n p3) (\<lambda>statements p4. Some (Inr (BlockStmt statements), p4)) else
     step (match_tok [TokenIf] p3) (\<lambda>m p4.
       if m then ifStatement n p4 else
     step (match_tok [TokenWhile] p4) (\<lambda>m p5.
       if m then whileStatement n p5 else
     step (match_tok [TokenFor] p5) (\<lambda>m p6.
       if m then forStatement n p6 else
     step (match_tok [TokenBreak] p6) (\<lambda>m p7.
       if m then breakStatement p7 else expressionStatement n p7)))))))"
| "block 0 p = None"
| "block (Suc n) p = block_loop n [] p"
| "block_loop 0 statements p = None"
| "block_loop (Suc n) statements p =
     step (check TokenRightBrace p) (\<lambda>c p1.
     step (if c then (Inr True, p1) else isAtEnd p1) (\<lambda>stop p2.
       if \<not> stop
       then pThen (declaration_stmt n p2) (\<lambda>st p3. block_loop n (statements @ [st]) p3)
       else step (consume TokenRightBrace ''Expect '}' after block.'' p2) (\<lambda>tk p3.
              Some (Inr statements, p3))))"
| "ifStatement 0 p = None"
| "ifStatement (Suc n) p =
     step (consume TokenLeftParen ''Expect '(' after 'if'.'' p) (\<lambda>tk p1.
     pThen (expression n p1) (\<lambda>condition p2.
     step (consume TokenRightParen ''Expect ')' after if condition.'' p2) (\<lambda>tk p3.
     pThen (statement n p3) (\<lambda>thenBranch p4.
     step (match_tok [TokenElse] p4) (\<lambda>m p5.
       if m
       then pThen (statement n p5) (\<lambda>elseBranch p6.
              Some (Inr (IfStmt condition thenBranch (Some elseBranch)), p6))
       else Some (Inr (IfStmt condition thenBranch None), p5))))))"
| "whileStatement 0 p = None"
| "whileStatement (Suc n) p =
     step (consume TokenLeftParen ''Expect '(' after 'while'.'' p) (\<lambda>tk p1.
     pThen (expression n p1) (\<lambda>condition p2.
     step (consume TokenRightParen ''Expect ')' after condition.'' p2) (\<lambda>tk p3.
     pThen (statement n p3) (\<lambda>body p4.
       Some (Inr (WhileStmt condition body), p4)))))"
| "forStatement 0 p = None"
| "forStatement (Suc n) p =
     pThen (forClauses n p) (\<lambda>clauses p1.
     pThen (statement n p1) (\<lambda>body p2.
       Some (Inr (forDesugar (fst clauses) (fst (snd clauses)) (snd (snd clauses)) body), p2)))"
| "function_stmt 0 kind p = None"
| "function_stmt (Suc n) kind p =
     step (consume TokenIdentifier (''Expect '' @ kind @ '' name.'') p) (\<lambda>nm p1.
     step (consume TokenLeftParen (''Expect '(' after '' @ kind @ '' name.'') p1) (\<lambda>tk p2.
     pThen
       (step (check TokenRightParen p2) (\<lambda>c p3.
          if \<not> c then function_params n [] p3 else Some (Inr [], p3)))
       (\<lambda>parameters p3.
     step (consume TokenRightParen ''Expect ')' after parameters.'' p3) (\<lambda>tk p4.
     step (consume TokenLeftBrace (''Expect '{' before '' @ kind @ '' body.'') p4) (\<lambda>tk p5.
     pThen (block n p5) (\<lambda>body p6.
       Some (Inr (FunStmt nm parameters body), p6)))))))"
  by pat_completeness auto
termination
  by (relation "measure
        (case_sum
           (case_sum (case_sum fst fst) (case_sum fst fst))
           (case_sum (case_sum fst fst) (case_sum fst fst)))")
     auto

text \<open>
  \<open>ParseStatements\<close>: the loop over \<open>declaration\<close> until the end of the tokens; its
  deferred function panics again with whatever it recovers.
\<close>

fun ParseStatements_loop :: "nat \<Rightarrow> Stmt list \<Rightarrow> Parser \<Rightarrow> (Stmt list) parsed option" where
  "ParseStatements_loop 0 statements p = None"
| "ParseStatements_loop (Suc n) statements p =
     step (isAtEnd p) (\<lambda>e p1.
       if \<not> e
       then pThen (declaration_stmt n p1) (\<lambda>st p2. ParseStatements_loop n (statements @ [st]) p2)
       else Some (Inr statements, p1))"

definition ParseStatements :: "nat \<Rightarrow> Parser \<Rightarrow> (Stmt list) parsed option" where
  "ParseStatements n p = ParseStatements_loop n [] p"

section \<open>Concrete inputs\<close>

definition ident :: "string \<Rightarrow> Token" where
  "ident l = mkToken TokenIdentifier l"

definition rparen :: Token where
  "rparen = mkToken TokenRightParen '')''"




text \<open>
  \<open>var a = "global"; { fun showA() { print a; } showA(); var a = "block"; showA(); }\<close>
\<close>

definition program_shadow :: "Stmt list" where
  "program_shadow =
     [VarStmt (ident ''a'') (Some (Literal (VStr ''global''))),
      BlockStmt
        [FunStmt (ident ''showA'') [] [PrintStmt (Variable 1 (ident ''a''))],
         ExpressionStmt (Call (Variable 2 (ident ''showA'')) rparen []),
         VarStmt (ident ''a'') (Some (Literal (VStr ''block''))),
         ExpressionStmt (Call (Variable 3 (ident ''showA'')) rparen [])]]"

text \<open>The tokens of \<open>obj.name\<close> and of \<open>obj.name;\<close>\<close>

definition tokens_property :: "Token list" where
  "tokens_property =
     [ident ''obj'', mkToken TokenDot ''.'', ident ''name'', mkToken TokenEof []]"

definition tokens_property_stmt :: "Token list" where
  "tokens_property_stmt =
     [ident ''obj'', mkToken TokenDot ''.'', ident ''name'', mkToken TokenSemicolon '';'',
      mkToken TokenEof []]"

text \<open>The globals after \<open>var a; var b;\<close>, and the expression \<open>a = b = 3\<close>.\<close>

definition state_a_b :: Interp where
  "state_a_b = Define 0 ''b'' VNil (Define 0 ''a'' VNil NewInterpreter)"

definition expr_chained :: Expr where
  "expr_chained = Assign 1 (ident ''a'') (Assign 2 (ident ''b'') (Literal (VNum 3)))"

text \<open>
  \<open>var i = 0; while (i < 2) { i = i + 1; while (true) { break; } print i; } print "done";\<close>
\<close>

definition program_nested_break :: "Stmt list" where
  "program_nested_break =
     [VarStmt (ident ''i'') (Some (Literal (VNum 0))),
      WhileStmt (Binary (Variable 1 (ident ''i'')) (mkToken TokenLess ''<'') (Literal (VNum 2)))
        (BlockStmt
           [ExpressionStmt
              (Assign 2 (ident ''i'')
                 (Binary (Variable 3 (ident ''i'')) (mkToken TokenPlus ''+'') (Literal (VNum 1)))),
            WhileStmt (Literal (VBool True)) (BlockStmt [BreakStmt]),
            PrintStmt (Variable 4 (ident ''i''))]),
      PrintStmt (Literal (VStr ''done''))]"



chapter \<open>Properties\<close>

section \<open>Division\<close>



section \<open>Initializers\<close>



section \<open>Variable lookup\<close>

text \<open>
  Claim C4 says that a Variable expression without an entry in the side table is looked up
  in the globals environment. \<open>lookupVariable\<close> calls \<open>i.environment.Get\<close>, which starts at
  the current environment and follows the parent links. In \<open>program_shadow\<close> the \<open>a\<close> read
  by \<open>showA\<close> (node 1) has no entry; the second call prints the \<open>a\<close> of the block, not the
  global one.
\<close>

theorem unresolved_variable_read_is_dynamic:
  "(case Resolve program_shadow (NewResolver NewInterpreter) of
      Inl msg \<Rightarrow> Some 0
    | Inr r \<Rightarrow> locals (interpreter r) 1) = None \<and>
   resolveAndInterpret 10 program_shadow = Some (Inr (Inr (), [VStr ''global'', VStr ''block'']))"
  by code_simp

section \<open>Property access in the parser\<close>

text \<open>
  Claim C3 says that the call-level production builds Get nodes for \<open>.name\<close> suffixes.
  The loop of \<open>call\<close> only matches \<open>(\<close>: for \<open>obj.name\<close> the expression parser returns the
  Variable \<open>obj\<close> and stops in front of the dot, and \<open>obj.name;\<close> is a parse error at the
  dot.
\<close>

theorem property_access_is_not_parsed:
  "map_option (\<lambda>(r, p). (r, current p)) (Parse 20 (NewParser tokens_property (Some [])))
     = Some (Inr (Variable 0 (ident ''obj'')), 1) \<and>
   map_option fst (ParseStatements 20 (NewParser tokens_property_stmt (Some [])))
     = Some (Inl (ParseError (mkToken TokenDot ''.'') ''Expect ';' after expression.''))"
  by code_simp

section \<open>Blocks\<close>

text \<open>
  Claim C5. Whenever the execution of a block ends, with normal completion or with any
  panic (a Return signal, a Break signal, a runtime error), the current-environment pointer
  of the interpreter is the one from before the block; this holds for \<open>executeBlock\<close> and
  for a Block statement.
\<close>

theorem block_restores_environment:
  "(executeBlock n statements env s = Some (r, s') \<longrightarrow> environment s' = environment s) \<and>
   (execute n (BlockStmt statements) s = Some (r, s') \<longrightarrow> environment s' = environment s)"
  by (cases n) (auto simp: Let_def NewEnclosedEnvironment_def split: option.splits prod.splits)

theorem block_restores_environment_witness:
  "\<exists>s'. execute 2 (BlockStmt [VarStmt (ident ''x'') None, BreakStmt]) NewInterpreter
           = Some (Inl BreakException, s')
        \<and> environment s' = environment NewInterpreter"
proof -
  have "\<exists>s'. execute 2 (BlockStmt [VarStmt (ident ''x'') None, BreakStmt]) NewInterpreter
               = Some (Inl BreakException, s')"
    by (simp add: numeral_2_eq_2 Let_def NewEnclosedEnvironment_def andThen_def split: prod.splits)
  then obtain s' where e: "execute 2 (BlockStmt [VarStmt (ident ''x'') None, BreakStmt]) NewInterpreter
               = Some (Inl BreakException, s')" by blast
  with block_restores_environment [of 2 "[VarStmt (ident ''x'') None, BreakStmt]" 0 NewInterpreter
      "Inl BreakException" s']
  have "environment s' = environment NewInterpreter" by blast
  with e show ?thesis by blast
qed

section \<open>Assignment\<close>

lemma ancestor_Define [simp]:
  "ancestor (envs (Define t nm v s)) d cur = ancestor (envs s) d cur"
  by (induction d arbitrary: cur) (auto simp: Define_def split: option.splits)

lemma getAt_assignAt:
  assumes "assignAt env d nm v s = Inr s'"
  shows "getAt env d (lexeme nm) s' = Inr v"
proof -
  from assms obtain t where t: "ancestor (envs s) (nat d) (Some env) = Some t"
    and s': "s' = Define t (lexeme nm) v s"
    by (auto simp: assignAt_def split: option.splits)
  have "values_map (envs s' t) (lexeme nm) = Some v"
    by (simp add: s' Define_def)
  with t show ?thesis
    by (simp add: getAt_def s')
qed

lemma Assign_env_Get:
  "Assign_env n h env nm v = Some (Inr h') \<Longrightarrow>
     (\<forall>e. parent (h' e) = parent (h e)) \<and>
     (\<forall>e. values_map (h e) (lexeme nm) = None \<longrightarrow> h' e = h e) \<and>
     Get n h' env nm = Some (Inr v)"
proof (induction n arbitrary: env)
  case 0
  then show ?case by simp
next
  case (Suc n)
  show ?case
  proof (cases "values_map (h env) (lexeme nm)")
    case (Some old)
    with Suc.prems have "h' = h(env := (h env)\<lparr>values_map := (values_map (h env))(lexeme nm \<mapsto> v)\<rparr>)"
      by simp
    with Some show ?thesis by auto
  next
    case None
    show ?thesis
    proof (cases "parent (h env)")
      case (Some p)
      with None Suc.prems have a: "Assign_env n h p nm v = Some (Inr h')" by simp
      from Suc.IH [OF a] None Some show ?thesis by simp
    next
      case np: None
      with None Suc.prems show ?thesis by simp
    qed
  qed
qed

text \<open>
  Claim C9. An Assign expression that returns yields the value of its right-hand side,
  and afterwards a read of the same name that is resolved like the assignment gives that
  value. A Set expression that returns yields the value of its right-hand side, which is
  then the field of the instance the object expression evaluated to. So \<open>a = b = 3\<close>
  stores 3 in both variables and yields 3.
\<close>

theorem assignment_yields_assigned_value:
  "(evaluate n (Assign a nm e) s = Some (Inr v, s') \<longrightarrow>
      (\<exists>s1. evaluate n e s = Some (Inr v, s1)) \<and>
      (\<forall>b. locals s' b = locals s' a \<longrightarrow> lookupVariable n nm b s' = Some (Inr v, s'))) \<and>
   (evaluate n (SetExpr object nm e) s = Some (Inr v, s') \<longrightarrow>
      (\<exists>inst s1 s2. evaluate n object s = Some (Inr (VInst inst), s1) \<and>
         evaluate n e s1 = Some (Inr v, s2) \<and> s' = LoxInstance_Set inst nm v s2 \<and>
         fields_map (instances s' inst) (lexeme nm) = Some v))"
proof (cases n)
  case 0
  then show ?thesis by simp
next
  case (Suc k)
  have A: "(\<exists>s1. evaluate n e s = Some (Inr v, s1)) \<and>
      (\<forall>b. locals s' b = locals s' a \<longrightarrow> lookupVariable n nm b s' = Some (Inr v, s'))"
    if h: "evaluate n (Assign a nm e) s = Some (Inr v, s')"
  proof -
    from h Suc obtain w s1 where e: "evaluate n e s = Some (Inr w, s1)"
      and w: "assignVariable n a nm w s1 = Some (Inr v, s')"
      by (auto simp: andThen_def split: option.splits sum.splits prod.splits)
    show ?thesis
    proof (cases "locals s1 a")
      case (Some d)
      with w have wv: "w = v" and as: "assignAt (environment s1) d nm v s1 = Inr s'"
        by (auto simp: assignVariable_def split: sum.splits)
      from as have l: "locals s' = locals s1" "environment s' = environment s1"
        by (auto simp: assignAt_def Define_def split: option.splits)
      from getAt_assignAt [OF as] l Some e wv show ?thesis
        by (auto simp: lookupVariable_def)
    next
      case None
      with w obtain h' where wv: "w = v"
        and as: "Assign_env n (envs s1) (environment s1) nm v = Some (Inr h')"
        and s': "s' = s1\<lparr>envs := h'\<rparr>"
        by (auto simp: assignVariable_def split: sum.splits option.splits)
      from Assign_env_Get [OF as] s' None e wv show ?thesis
        by (auto simp: lookupVariable_def)
    qed
  qed
  have B: "(\<exists>inst s1 s2. evaluate n object s = Some (Inr (VInst inst), s1) \<and>
         evaluate n e s1 = Some (Inr v, s2) \<and> s' = LoxInstance_Set inst nm v s2 \<and>
         fields_map (instances s' inst) (lexeme nm) = Some v)"
    if h: "evaluate n (SetExpr object nm e) s = Some (Inr v, s')"
    using h Suc
    by (auto simp: andThen_def LoxInstance_Set_def split: option.splits sum.splits prod.splits val.splits)
  from A B show ?thesis by blast
qed

theorem assignment_yields_assigned_value_witness:
  "\<exists>s'. evaluate 1 expr_chained state_a_b = Some (Inr (VNum 3), s')
        \<and> lookupVariable 1 (ident ''a'') 7 s' = Some (Inr (VNum 3), s')
        \<and> values_map (envs s' 0) ''b'' = Some (VNum 3)"
proof -
  have "\<exists>s'. evaluate 1 expr_chained state_a_b = Some (Inr (VNum 3), s')
            \<and> values_map (envs s' 0) ''b'' = Some (VNum 3) \<and> locals s' 7 = locals s' 1"
    by (simp add: expr_chained_def state_a_b_def andThen_def assignVariable_def NewInterpreter_def
        Define_def ident_def mkToken_def)
  then obtain s' where e: "evaluate 1 expr_chained state_a_b = Some (Inr (VNum 3), s')"
    and b: "values_map (envs s' 0) ''b'' = Some (VNum 3)" and l: "locals s' 7 = locals s' 1"
    by blast
  from assignment_yields_assigned_value [of 1 1 "ident ''a''" "Assign 2 (ident ''b'') (Literal (VNum 3))"
      state_a_b "VNum 3" s'] e l
  have "lookupVariable 1 (ident ''a'') 7 s' = Some (Inr (VNum 3), s')"
    by (simp add: expr_chained_def)
  with e b show ?thesis by blast
qed


section \<open>Break and While\<close>

lemma runDefers_normal [simp]: "runDefers k (Inr ()) = Inr ()"
  by (induction k) auto

lemma runDefers_break [simp]: "runDefers (Suc k) (Inl BreakException) = Inr ()"
  by simp






text \<open>
  The loops of \<open>program_nested_break\<close>: the inner loop is left by \<open>break\<close> in each
  iteration of the outer one, which runs twice.
\<close>

lemma nested_break_example:
  "resolveAndInterpret 20 program_nested_break
     = Some (Inr (Inr (), [VNum 1, VNum 2, VStr ''done'']))"
  by code_simp

section \<open>Break outside a loop\<close>







end
